theory Spec2Isabelle
  imports Main "HOL-Library.AList"
begin

section \<open>The MongoDB engine of the migration framework\<close>

text \<open>
  A shallow embedding of \<^verbatim>\<open>src/index.ts\<close>, in the later of its two revisions:
  the one with the nullable \<^verbatim>\<open>client\<close> and \<^verbatim>\<open>db\<close> handles and a
  \<^verbatim>\<open>run\<close> that does run. The engine is the object returned by
  \<^verbatim>\<open>MongoDbEngine\<close>: a closure over the parsed connection data and the two
  mutable handles. Every \<^verbatim>\<open>async\<close> method is awaited by its caller before the
  next one starts, so a method is a function from the engine and the outside world to a
  result and the new world; a rejected promise is the \<open>Inl\<close> of a sum.
\<close>

subsection \<open>Errors\<close>

text \<open>
  The calls of the \<^verbatim>\<open>mongodb\<close> package that the source makes. Each of them is a
  round trip to the server and can be refused there.
\<close>

datatype call =
  Connect | CreateCollection | ListCollections | DropCollection
  | Insert | DeleteMany | UpdateOne | Find

text \<open>
  The source raises one class of its own, \<^verbatim>\<open>SynorError\<close>, told apart by its
  message. \<open>MongoError\<close> is a failure of a driver call, and \<open>Thrown\<close> is any other
  value that a migration's runnable unit throws.
\<close>

datatype error = SynorError string | MongoError call | Thrown string

subsection \<open>Documents and the world outside the engine\<close>

text \<open>
  \<^verbatim>\<open>version, type, title, hash\<close> are the fields a migration source and its
  record share. A document of the record collection has the fields that
  \<^verbatim>\<open>run\<close> inserts; \<^verbatim>\<open>id\<close> is the field that \<^verbatim>\<open>repair\<close> and
  \<^verbatim>\<open>records\<close> query, and it is optional because the document that
  \<^verbatim>\<open>run\<close> inserts has none. Numbers are integers here: ids are whole numbers,
  and clock readings are ticks.
\<close>

record MigrationInfo =
  version :: string
  mtype :: string
  title :: string
  hash :: string

record MigrationRecord = MigrationInfo +
  doc_id :: "int option"
  appliedAt :: int
  appliedBy :: string
  executionTime :: int
  dirty :: bool

text \<open>
  The target database is a list of named collections, each one the list of its documents
  in stored order. The world also holds the calls that the server refuses at present, the
  readings of \<^verbatim>\<open>performance.now()\<close> and \<^verbatim>\<open>new Date()\<close>, and the lines
  written with \<^verbatim>\<open>console.error\<close>.
\<close>

type_synonym database = "(string \<times> MigrationRecord list) list"

record world =
  collections :: database
  rejects :: "call set"
  performance_now :: int
  date_now :: int
  console :: "string list"

datatype MongoClient = MongoClient string

datatype Db = Db "string option"

text \<open>
  A migration source: the shared fields and the runnable unit, which may be absent. The
  unit receives the database handle, does whatever it does to the world, and either
  returns or throws.
\<close>

record MigrationSource = MigrationInfo +
  run :: "(Db \<Rightarrow> world \<Rightarrow> error option \<times> world) option"

subsection \<open>The driver calls\<close>

text \<open>
  Modelled from the spec: the \<^verbatim>\<open>mongodb\<close> package is not part of the source. Its
  calls are the spec's record store accessor: "low-level CRUD against the migration-record
  collection (insert, update by id, delete-where-dirty, range query)", each one a round
  trip that "may block the calling sequence until the store responds" and that can fail
  with a store operation error. A call that the server refuses rejects and changes
  nothing; otherwise it applies its effect to the database.
\<close>

definition driver :: "call \<Rightarrow> (database \<Rightarrow> database) \<Rightarrow> world \<Rightarrow> error option \<times> world" where
  "driver c f w =
     (if c \<in> rejects w then (Some (MongoError c), w)
      else (None, w\<lparr>collections := f (collections w)\<rparr>))"

text \<open>
  Modelled from the spec: \<^verbatim>\<open>MongoClient.connect(uri)\<close> and
  \<^verbatim>\<open>client.db(name)\<close> of the \<^verbatim>\<open>mongodb\<close> package, "establish the store
  connection, select the target database". Connecting fails when the store is unreachable;
  selecting a database is no round trip and cannot fail.
\<close>

definition connect :: "string \<Rightarrow> world \<Rightarrow> error + MongoClient" where
  "connect u w = (if Connect \<in> rejects w then Inl (MongoError Connect) else Inr (MongoClient u))"

definition client_db :: "MongoClient \<Rightarrow> string option \<Rightarrow> Db" where
  "client_db c name = Db name"

text \<open>
  Modelled from the spec: \<^verbatim>\<open>db.createCollection(name)\<close> belongs to the
  \<^verbatim>\<open>mongodb\<close> package, which is not part of the source. The spec says that
  creating an already-existing collection is a no-op, not an error; a name that is not
  there yet gets an empty collection.
\<close>

definition createCollection :: "string \<Rightarrow> world \<Rightarrow> error option \<times> world" where
  "createCollection name =
     driver CreateCollection (\<lambda>cs. if map_of cs name = None then cs @ [(name, [])] else cs)"

text \<open>
  Modelled from the spec: \<^verbatim>\<open>db.listCollections({}, {nameOnly: true}).toArray()\<close>
  and \<^verbatim>\<open>db.dropCollection(name)\<close> of the \<^verbatim>\<open>mongodb\<close> package, "enumerate all
  collections in the target database and remove each one". An entry of the listing is a
  document with the name and the type of a collection. \<^verbatim>\<open>dropCollection\<close> expects
  the name of the collection, a string, and removes that collection. JavaScript lets the
  caller pass any value: given a document, the driver sends a drop command whose collection
  is not a string, which the server refuses, and nothing is dropped.
\<close>

datatype CollectionInfo = CollectionInfo string string

datatype drop_argument = Name string | Entry CollectionInfo

definition listCollections :: "world \<Rightarrow> error + CollectionInfo list" where
  "listCollections w =
     (if ListCollections \<in> rejects w then Inl (MongoError ListCollections)
      else Inr (map (\<lambda>c. CollectionInfo (fst c) ''collection'') (collections w)))"

fun dropCollection :: "drop_argument \<Rightarrow> world \<Rightarrow> error option \<times> world" where
  "dropCollection (Name n) w = driver DropCollection (AList.delete n) w"
| "dropCollection (Entry c) w = (Some (MongoError DropCollection), w)"

text \<open>
  Modelled from the spec: \<^verbatim>\<open>db.collection(name).insert(doc)\<close> of the
  \<^verbatim>\<open>mongodb\<close> package. The inserted document becomes the last one of the
  collection ("record writes from consecutive run calls are strictly ordered by invocation
  order"); a collection that is not there is created by the insert.
\<close>

definition insert_doc :: "string \<Rightarrow> MigrationRecord \<Rightarrow> world \<Rightarrow> error option \<times> world" where
  "insert_doc name d =
     driver Insert (\<lambda>cs. case map_of cs name of
                           None \<Rightarrow> cs @ [(name, [d])]
                         | Some ds \<Rightarrow> AList.map_entry name (\<lambda>ds. ds @ [d]) cs)"

text \<open>
  Modelled from the spec: \<^verbatim>\<open>deleteMany\<close>, \<^verbatim>\<open>updateOne\<close> and
  \<^verbatim>\<open>find\<close> of the \<^verbatim>\<open>mongodb\<close> package.
  \<^verbatim>\<open>deleteMany(query)\<close> removes every document that matches the query ("delete
  every record currently marked dirty"). \<^verbatim>\<open>updateOne(query, update)\<close> changes
  one document, the first that matches, and nothing when none does ("an update targeting a
  non-existent id is a no-op"). \<^verbatim>\<open>find(query).toArray()\<close> returns the matching
  documents in stored order, the source asking for no sort ("range queries yield records
  in application order"). A collection that does not exist behaves as an empty one.
\<close>

definition deleteMany :: "string \<Rightarrow> (MigrationRecord \<Rightarrow> bool) \<Rightarrow> world \<Rightarrow> error option \<times> world" where
  "deleteMany name query = driver DeleteMany (AList.map_entry name (filter (\<lambda>d. \<not> query d)))"

fun update_first :: "('a \<Rightarrow> bool) \<Rightarrow> ('a \<Rightarrow> 'a) \<Rightarrow> 'a list \<Rightarrow> 'a list" where
  "update_first query upd [] = []"
| "update_first query upd (d # ds) =
     (if query d then upd d # ds else d # update_first query upd ds)"

definition updateOne ::
  "string \<Rightarrow> (MigrationRecord \<Rightarrow> bool) \<Rightarrow> (MigrationRecord \<Rightarrow> MigrationRecord) \<Rightarrow> world
   \<Rightarrow> error option \<times> world" where
  "updateOne name query upd = driver UpdateOne (AList.map_entry name (update_first query upd))"

definition docs :: "string \<Rightarrow> world \<Rightarrow> MigrationRecord list" where
  "docs name w = (case map_of (collections w) name of None \<Rightarrow> [] | Some ds \<Rightarrow> ds)"

definition find_docs :: "string \<Rightarrow> (MigrationRecord \<Rightarrow> bool) \<Rightarrow> world \<Rightarrow> error + MigrationRecord list" where
  "find_docs name query w =
     (if Find \<in> rejects w then Inl (MongoError Find) else Inr (filter query (docs name w)))"

text \<open>The three queries of the source: \<^verbatim>\<open>{dirty: true}\<close>, \<^verbatim>\<open>{id}\<close> and
  \<^verbatim>\<open>{id: {$gte: startid}}\<close>. A document without an \<^verbatim>\<open>id\<close> matches neither
  of the last two.\<close>

definition dirty_true :: "MigrationRecord \<Rightarrow> bool" where
  "dirty_true d = dirty d"

definition id_eq :: "int \<Rightarrow> MigrationRecord \<Rightarrow> bool" where
  "id_eq i d = (doc_id d = Some i)"

definition id_gte :: "int \<Rightarrow> MigrationRecord \<Rightarrow> bool" where
  "id_gte startid d = (case doc_id d of None \<Rightarrow> False | Some i \<Rightarrow> startid \<le> i)"

subsection \<open>The helper functions of the source\<close>

definition ensureMigrationRecordTableExists :: "string \<Rightarrow> world \<Rightarrow> error option \<times> world" where
  "ensureMigrationRecordTableExists mgCollName = createCollection mgCollName"

definition deleteDirtyRecords :: "string \<Rightarrow> world \<Rightarrow> error option \<times> world" where
  "deleteDirtyRecords mgCollName = deleteMany mgCollName dirty_true"

definition updateRecord :: "string \<Rightarrow> int \<times> string \<Rightarrow> world \<Rightarrow> error option \<times> world" where
  "updateRecord mgCollName c =
     updateOne mgCollName (id_eq (fst c)) (\<lambda>d. d\<lparr>hash := snd c\<rparr>)"

subsection \<open>Constructing the engine\<close>

text \<open>
  \<^verbatim>\<open>new ConnectionString(cn, defaults)\<close> is the parser of another package: its
  result is taken as given. A component that the string lacks is \<open>None\<close>. The
  parameter \<^verbatim>\<open>synor_migration_record_table\<close> has the default that the source
  passes; with that default \<^verbatim>\<open>params\<close> is always an object, so
  \<^verbatim>\<open>!params\<close> is never true. An empty \<^verbatim>\<open>path\<close> is an array and so is
  not falsy; its first element is then undefined.
\<close>

record ConnectionString =
  protocol :: "string option"
  hostname :: "string option"
  port :: "nat option"
  user :: "string option"
  password :: "string option"
  path :: "string list option"
  synor_migration_record_table :: "string option"

record parsed =
  p_database :: "string option"
  p_migrationRecordTable :: string

text \<open>JavaScript's \<^verbatim>\<open>!x\<close> on a string or a number that may be undefined.\<close>

definition falsy_string :: "string option \<Rightarrow> bool" where
  "falsy_string s = (s = None \<or> s = Some [])"

definition falsy_number :: "nat option \<Rightarrow> bool" where
  "falsy_number n = (n = None \<or> n = Some 0)"

definition parseConnectionString :: "ConnectionString \<Rightarrow> error + parsed" where
  "parseConnectionString cn =
     (if falsy_string (hostname cn) \<or> falsy_string (protocol cn) \<or> falsy_number (port cn)
         \<or> falsy_string (user cn) \<or> falsy_string (password cn) \<or> path cn = None
      then Inl (SynorError ''Invalid connection uri'')
      else Inr \<lparr>p_database = (case path cn of Some (x # xs) \<Rightarrow> Some x | _ \<Rightarrow> None),
                p_migrationRecordTable =
                  (case synor_migration_record_table cn of
                     None \<Rightarrow> ''synor_migration_record'' | Some t \<Rightarrow> t)\<rparr>)"

text \<open>
  The helpers of the framework. \<open>None\<close> is a helper that is not a function. The engine
  keeps the parsed names, the helper it was given for the user's identity, and the two
  handles, which are null until \<^verbatim>\<open>open\<close> sets them.
\<close>

record helpers =
  baseVersion :: string
  getAdvisoryLockId :: "(string \<Rightarrow> string list) option"
  getUserInfo :: "(unit \<Rightarrow> string) option"

record engine =
  uri :: string
  database :: "string option"
  migrationRecordTable :: string
  userInfo :: "unit \<Rightarrow> string"
  client :: "MongoClient option"
  db :: "Db option"

definition MongoDbEngine ::
  "(string \<Rightarrow> ConnectionString) \<Rightarrow> string \<Rightarrow> helpers \<Rightarrow> error + engine" where
  "MongoDbEngine parse u h =
     (case getAdvisoryLockId h of
        None \<Rightarrow> Inl (SynorError ''Missing: getAdvisoryLockId'')
      | Some lockId \<Rightarrow>
         (case getUserInfo h of
            None \<Rightarrow> Inl (SynorError ''Missing: getUserInfo'')
          | Some info \<Rightarrow>
             (case parseConnectionString (parse u) of
                Inl err \<Rightarrow> Inl err
              | Inr p \<Rightarrow>
                 Inr \<lparr>uri = u, database = p_database p,
                      migrationRecordTable = p_migrationRecordTable p,
                      userInfo = info, client = None, db = None\<rparr>)))"

subsection \<open>The methods of the engine\<close>

text \<open>
  \<^verbatim>\<open>open\<close>: the handles are assigned one after the other, so a failure of the
  last step leaves both set.
\<close>

definition engine_open :: "engine \<Rightarrow> world \<Rightarrow> (error + unit) \<times> engine \<times> world" where
  "engine_open e w =
     (case connect (uri e) w of
        Inl err \<Rightarrow> (Inl err, e, w)
      | Inr c \<Rightarrow>
         (let e1 = e\<lparr>client := Some c\<rparr>;
              e2 = e1\<lparr>db := Some (client_db c (database e1))\<rparr>
          in case ensureMigrationRecordTableExists (migrationRecordTable e2) w of
               (Some err, w') \<Rightarrow> (Inl err, e2, w')
             | (None, w') \<Rightarrow> (Inr (), e2, w')))"

text \<open>
  \<^verbatim>\<open>drop\<close>: the source maps \<^verbatim>\<open>db.dropCollection(c)\<close> over the listing, so
  each call receives the entry \<^verbatim>\<open>c\<close> itself, not its name. The drops of
  \<^verbatim>\<open>Promise.all\<close> are all started; the first one that rejects is the failure of
  the whole, and with no collection to drop there is none.
\<close>

fun drop_all :: "CollectionInfo list \<Rightarrow> world \<Rightarrow> error option \<times> world" where
  "drop_all [] w = (None, w)"
| "drop_all (c # cs) w =
     (case dropCollection (Entry c) w of
        (r, w') \<Rightarrow> (case drop_all cs w' of
                      (r', w'') \<Rightarrow> ((case r of Some err \<Rightarrow> Some err | None \<Rightarrow> r'), w'')))"

definition engine_drop :: "engine \<Rightarrow> world \<Rightarrow> (error + unit) \<times> world" where
  "engine_drop e w =
     (case db e of
        None \<Rightarrow> (Inl (SynorError ''Database connection is null''), w)
      | Some h \<Rightarrow>
         (case listCollections w of
            Inl err \<Rightarrow> (Inl err, w)
          | Inr cs \<Rightarrow>
             (case drop_all cs w of
                (Some err, w') \<Rightarrow> (Inl err, w')
              | (None, w') \<Rightarrow> (Inr (), w'))))"

text \<open>
  \<^verbatim>\<open>run\<close>, block by block. The \<^verbatim>\<open>try\<close> block calls the unit when there is
  one and the handle is set, and throws otherwise. The \<^verbatim>\<open>catch\<close> block sets
  \<^verbatim>\<open>dirty\<close>, writes to the console and throws the same value again. The
  \<^verbatim>\<open>finally\<close> block inserts the record through \<^verbatim>\<open>db?.\<close>, which does
  nothing on a null handle. A \<^verbatim>\<open>finally\<close> block that throws replaces the
  pending exception by its own.
\<close>

definition try_block :: "engine \<Rightarrow> MigrationSource \<Rightarrow> world \<Rightarrow> error option \<times> world" where
  "try_block e m w =
     (case run m of
        None \<Rightarrow> (Some (SynorError ''Run function is null''), w)
      | Some f \<Rightarrow>
         (case db e of
            None \<Rightarrow> (Some (SynorError ''Run function is null''), w)
          | Some h \<Rightarrow> f h w))"

definition catch_block :: "error option \<Rightarrow> world \<Rightarrow> bool \<times> world" where
  "catch_block thrown w =
     (case thrown of
        None \<Rightarrow> (False, w)
      | Some err \<Rightarrow> (True, w\<lparr>console := console w @ [''error trying to run migration'']\<rparr>))"

definition new_record :: "MigrationSource \<Rightarrow> int \<Rightarrow> int \<Rightarrow> bool \<Rightarrow> MigrationRecord" where
  "new_record m at elapsed d =
     \<lparr>version = version m, mtype = mtype m, title = title m, hash = hash m,
      doc_id = None, appliedAt = at, appliedBy = [], executionTime = elapsed, dirty = d\<rparr>"

definition finally_block ::
  "engine \<Rightarrow> MigrationSource \<Rightarrow> int \<Rightarrow> bool \<Rightarrow> world \<Rightarrow> error option \<times> world" where
  "finally_block e m startTime d w =
     (let endTime = performance_now w
      in case db e of
           None \<Rightarrow> (None, w)
         | Some h \<Rightarrow>
            insert_doc (migrationRecordTable e)
              (new_record m (date_now w) (endTime - startTime) d) w)"

definition engine_run :: "engine \<Rightarrow> MigrationSource \<Rightarrow> world \<Rightarrow> (error + unit) \<times> world" where
  "engine_run e m w =
     (let startTime = performance_now w
      in case try_block e m w of
           (thrown, w1) \<Rightarrow>
             (case catch_block thrown w1 of
                (d, w2) \<Rightarrow>
                  (case finally_block e m startTime d w2 of
                     (Some ierr, w3) \<Rightarrow> (Inl ierr, w3)
                   | (None, w3) \<Rightarrow>
                       (case thrown of Some err \<Rightarrow> (Inl err, w3) | None \<Rightarrow> (Inr (), w3)))))"

text \<open>
  \<^verbatim>\<open>repair\<close>: the sweep, then the updates one after the other; the first call
  that rejects ends the method.
\<close>

fun update_all :: "string \<Rightarrow> (int \<times> string) list \<Rightarrow> world \<Rightarrow> error option \<times> world" where
  "update_all name [] w = (None, w)"
| "update_all name (c # cs) w =
     (case updateRecord name c w of
        (Some err, w') \<Rightarrow> (Some err, w')
      | (None, w') \<Rightarrow> update_all name cs w')"

definition engine_repair :: "engine \<Rightarrow> (int \<times> string) list \<Rightarrow> world \<Rightarrow> (error + unit) \<times> world" where
  "engine_repair e cs w =
     (case db e of
        None \<Rightarrow> (Inl (SynorError ''Database connection is null''), w)
      | Some h \<Rightarrow>
         (case deleteDirtyRecords (migrationRecordTable e) w of
            (Some err, w') \<Rightarrow> (Inl err, w')
          | (None, w') \<Rightarrow>
             (case update_all (migrationRecordTable e) cs w' of
                (Some err, w'') \<Rightarrow> (Inl err, w'')
              | (None, w'') \<Rightarrow> (Inr (), w''))))"

definition engine_records :: "engine \<Rightarrow> int \<Rightarrow> world \<Rightarrow> error + MigrationRecord list" where
  "engine_records e startid w =
     (case db e of
        None \<Rightarrow> Inl (SynorError ''Database connection is null'')
      | Some h \<Rightarrow> find_docs (migrationRecordTable e) (id_gte startid) w)"

subsection \<open>Reading the record collection\<close>

text \<open>The ids that the documents of a list carry, in the order of the list.\<close>

definition ids_of :: "MigrationRecord list \<Rightarrow> int list" where
  "ids_of ds = List.map_filter doc_id ds"

text \<open>The hash that a list of corrections leaves on an id: the one of its last entry for it.\<close>

definition last_hash :: "(int \<times> string) list \<Rightarrow> int \<Rightarrow> string option" where
  "last_hash cs i = map_of (rev cs) i"

text \<open>
  What \<^verbatim>\<open>repair\<close> does to the documents of the record collection, as functions
  on the list: the sweep of \<^verbatim>\<open>deleteDirtyRecords\<close>, and the updates of
  \<^verbatim>\<open>updateRecord\<close> one after the other in the order of the corrections.
\<close>

definition sweep :: "MigrationRecord list \<Rightarrow> MigrationRecord list" where
  "sweep ds = filter (\<lambda>d. \<not> dirty d) ds"

definition apply_corrections ::
  "(int \<times> string) list \<Rightarrow> MigrationRecord list \<Rightarrow> MigrationRecord list" where
  "apply_corrections cs ds =
     fold (\<lambda>c. update_first (\<lambda>d. doc_id d = Some (fst c)) (\<lambda>d. d\<lparr>hash := snd c\<rparr>)) cs ds"

subsection \<open>Concrete engines, worlds and migrations\<close>

definition sample_uri :: string where
  "sample_uri = ''mongodb://u:p@localhost:27017/app''"

definition sample_parse :: "string \<Rightarrow> ConnectionString" where
  "sample_parse u =
     \<lparr>protocol = Some ''mongodb'', hostname = Some ''localhost'', port = Some 27017,
      user = Some ''u'', password = Some ''p'', path = Some [''app''],
      synor_migration_record_table = None\<rparr>"

definition sample_helpers :: helpers where
  "sample_helpers =
     \<lparr>baseVersion = ''0'', getAdvisoryLockId = Some (\<lambda>n. [n]),
      getUserInfo = Some (\<lambda>u. ''alice'')\<rparr>"

definition fresh_engine :: engine where
  "fresh_engine =
     \<lparr>uri = sample_uri, database = Some ''app'',
      migrationRecordTable = ''synor_migration_record'',
      userInfo = (\<lambda>u. ''alice''), client = None, db = None\<rparr>"

definition opened_engine :: engine where
  "opened_engine =
     fresh_engine\<lparr>client := Some (MongoClient sample_uri), db := Some (Db (Some ''app''))\<rparr>"

definition stored :: "int option \<Rightarrow> string \<Rightarrow> bool \<Rightarrow> MigrationRecord" where
  "stored i h d =
     \<lparr>version = ''1'', mtype = ''DO'', title = ''init'', hash = h,
      doc_id = i, appliedAt = 4000, appliedBy = [], executionTime = 3, dirty = d\<rparr>"

definition world_with :: "MigrationRecord list \<Rightarrow> call set \<Rightarrow> world" where
  "world_with ds refused =
     \<lparr>collections = [(''synor_migration_record'', ds)], rejects = refused,
      performance_now = 100, date_now = 5000, console = []\<rparr>"

definition empty_world :: world where
  "empty_world =
     \<lparr>collections = [], rejects = {}, performance_now = 100, date_now = 5000, console = []\<rparr>"

definition unit_ok :: "Db \<Rightarrow> world \<Rightarrow> error option \<times> world" where
  "unit_ok h w = (None, w\<lparr>performance_now := performance_now w + 5\<rparr>)"

definition unit_boom :: "Db \<Rightarrow> world \<Rightarrow> error option \<times> world" where
  "unit_boom h w = (Some (Thrown ''boom''), w\<lparr>performance_now := performance_now w + 7\<rparr>)"

definition migration :: "(Db \<Rightarrow> world \<Rightarrow> error option \<times> world) option \<Rightarrow> MigrationSource" where
  "migration f =
     \<lparr>version = ''2'', mtype = ''DO'', title = ''add users'', hash = ''abc'', run = f\<rparr>"

section \<open>Facts about the driver calls\<close>

lemma docs_insert_doc:
  assumes "Insert \<notin> rejects w"
  shows "fst (insert_doc name d w) = None"
    and "docs name (snd (insert_doc name d w)) = docs name w @ [d]"
  using assms
  by (auto simp: insert_doc_def driver_def docs_def map_add_def AList.map_of_map_entry
           split: option.splits)

section \<open>Running a migration\<close>

text \<open>
  C10. When the database handle is still null, \<^verbatim>\<open>run\<close> raises the error of
  its guard and leaves the world as it was, but for the line on the console: the result
  does not depend on the runnable unit, so the unit was not called, and no record was
  written to any collection.
\<close>

theorem run_before_open:
  assumes "db e = None"
  shows "engine_run e m w =
     (Inl (SynorError ''Run function is null''),
      w\<lparr>console := console w @ [''error trying to run migration'']\<rparr>)"
  using assms
  by (simp add: engine_run_def try_block_def catch_block_def finally_block_def
           split: option.splits)

theorem run_before_open_witness:
  "db fresh_engine = None \<and>
   run (migration (Some unit_boom)) = Some unit_boom \<and>
   engine_run fresh_engine (migration (Some unit_boom)) empty_world =
     (Inl (SynorError ''Run function is null''),
      empty_world\<lparr>console := [''error trying to run migration'']\<rparr>) \<and>
   collections (snd (engine_run fresh_engine (migration (Some unit_boom)) empty_world)) = []"
  using run_before_open [of fresh_engine "migration (Some unit_boom)" empty_world]
  by (simp add: fresh_engine_def empty_world_def migration_def)

text \<open>
  C1. When the handle is set, the runnable unit throws \<open>err\<close> and the server accepts
  the insert that follows, \<^verbatim>\<open>run\<close> rejects with that same \<open>err\<close>, and the record
  collection is what the unit left of it followed by exactly one new document: the fields
  of the migration, \<^verbatim>\<open>dirty\<close> true, and as \<^verbatim>\<open>executionTime\<close> the difference
  of the two clock readings.
\<close>

theorem run_unit_raises:
  assumes "db e = Some h" and "run m = Some f" and "f h w = (Some err, w1)"
    and "Insert \<notin> rejects w1"
  shows "fst (engine_run e m w) = Inl err \<and>
         docs (migrationRecordTable e) (snd (engine_run e m w)) =
           docs (migrationRecordTable e) w1 @
             [\<lparr>version = version m, mtype = mtype m, title = title m, hash = hash m,
               doc_id = None, appliedAt = date_now w1, appliedBy = [],
               executionTime = performance_now w1 - performance_now w, dirty = True\<rparr>]"
proof -
  let ?w2 = "w1\<lparr>console := console w1 @ [''error trying to run migration'']\<rparr>"
  let ?r = "new_record m (date_now w1) (performance_now w1 - performance_now w) True"
  have t: "try_block e m w = (Some err, w1)"
    using assms by (simp add: try_block_def)
  have c: "catch_block (Some err) w1 = (True, ?w2)"
    by (simp add: catch_block_def)
  have f: "finally_block e m (performance_now w) True ?w2 =
             insert_doc (migrationRecordTable e) ?r ?w2"
    using assms by (simp add: finally_block_def)
  have ok: "Insert \<notin> rejects ?w2" using assms by simp
  obtain w3 where i: "insert_doc (migrationRecordTable e) ?r ?w2 = (None, w3)"
    using docs_insert_doc(1) [OF ok] by (metis prod.collapse)
  have d3: "docs (migrationRecordTable e) w3 = docs (migrationRecordTable e) ?w2 @ [?r]"
    using docs_insert_doc(2) [OF ok, of "migrationRecordTable e" ?r] i by simp
  have run: "engine_run e m w = (Inl err, w3)"
    by (simp add: engine_run_def t c f i)
  have "docs (migrationRecordTable e) ?w2 = docs (migrationRecordTable e) w1"
    by (simp add: docs_def)
  with d3 run show ?thesis by (simp add: new_record_def)
qed

theorem run_unit_raises_witness:
  "fst (engine_run opened_engine (migration (Some unit_boom)) (world_with [] {})) =
     Inl (Thrown ''boom'') \<and>
   docs ''synor_migration_record''
     (snd (engine_run opened_engine (migration (Some unit_boom)) (world_with [] {}))) =
     [\<lparr>version = ''2'', mtype = ''DO'', title = ''add users'', hash = ''abc'',
       doc_id = None, appliedAt = 5000, appliedBy = [], executionTime = 7, dirty = True\<rparr>]"
proof -
  let ?w = "world_with [] {}"
  let ?w1 = "?w\<lparr>performance_now := 107\<rparr>"
  have a: "db opened_engine = Some (Db (Some ''app''))"
    by (simp add: opened_engine_def fresh_engine_def)
  have b: "run (migration (Some unit_boom)) = Some unit_boom"
    by (simp add: migration_def)
  have c: "unit_boom (Db (Some ''app'')) ?w = (Some (Thrown ''boom''), ?w1)"
    by (simp add: unit_boom_def world_with_def)
  have d: "Insert \<notin> rejects ?w1"
    by (simp add: world_with_def)
  show ?thesis
    using run_unit_raises [OF a b c d]
    by (simp add: opened_engine_def fresh_engine_def migration_def world_with_def docs_def)
qed

text \<open>
  C2. The unit throws \<open>Thrown ''boom''\<close> and the server refuses the insert of the
  \<^verbatim>\<open>finally\<close> block: \<^verbatim>\<open>run\<close> rejects with the failure of the insert, not
  with what the unit threw, of which only the fixed line on the console is left.
\<close>

theorem run_insert_refused:
  "engine_run opened_engine (migration (Some unit_boom)) (world_with [] {Insert}) =
     (Inl (MongoError Insert),
      (world_with [] {Insert})\<lparr>performance_now := 107,
         console := [''error trying to run migration'']\<rparr>)"
  by (simp add: engine_run_def try_block_def catch_block_def finally_block_def
        insert_doc_def driver_def opened_engine_def fresh_engine_def migration_def
        unit_boom_def world_with_def)

text \<open>
  C3. A descriptor without a runnable unit makes the guard of the \<^verbatim>\<open>try\<close> block
  throw \<^verbatim>\<open>SynorError('Run function is null')\<close>. The throw is inside the
  \<^verbatim>\<open>try\<close>, so the \<^verbatim>\<open>finally\<close> block still runs: with the handle set
  and the insert accepted, \<^verbatim>\<open>run\<close> rejects with that error and one record
  with \<^verbatim>\<open>dirty\<close> true is written all the same. With a null handle
  \<^verbatim>\<open>run\<close> rejects with that error and nothing is written.
\<close>

theorem run_without_unit:
  assumes "run m = None"
  shows "(db e = None \<longrightarrow>
            engine_run e m w =
              (Inl (SynorError ''Run function is null''),
               w\<lparr>console := console w @ [''error trying to run migration'']\<rparr>)) \<and>
         (db e \<noteq> None \<and> Insert \<notin> rejects w \<longrightarrow>
            fst (engine_run e m w) = Inl (SynorError ''Run function is null'') \<and>
            (\<exists>elapsed.
               docs (migrationRecordTable e) (snd (engine_run e m w)) =
                 docs (migrationRecordTable e) w @
                   [\<lparr>version = version m, mtype = mtype m, title = title m, hash = hash m,
                     doc_id = None, appliedAt = date_now w, appliedBy = [],
                     executionTime = elapsed, dirty = True\<rparr>]))"
proof (intro conjI impI)
  assume "db e = None"
  with assms show "engine_run e m w =
      (Inl (SynorError ''Run function is null''),
       w\<lparr>console := console w @ [''error trying to run migration'']\<rparr>)"
    by (simp add: engine_run_def try_block_def catch_block_def finally_block_def)
next
  let ?w2 = "w\<lparr>console := console w @ [''error trying to run migration'']\<rparr>"
  let ?r = "new_record m (date_now w) 0 True"
  assume a: "db e \<noteq> None \<and> Insert \<notin> rejects w"
  then obtain h where h: "db e = Some h" by auto
  have ok: "Insert \<notin> rejects ?w2" using a by simp
  have run: "engine_run e m w =
      (case insert_doc (migrationRecordTable e) ?r ?w2 of
         (Some ierr, w3) \<Rightarrow> (Inl ierr, w3)
       | (None, w3) \<Rightarrow> (Inl (SynorError ''Run function is null''), w3))"
    using assms h
    by (simp add: engine_run_def try_block_def catch_block_def finally_block_def
          split: prod.splits option.splits)
  obtain w3 where i: "insert_doc (migrationRecordTable e) ?r ?w2 = (None, w3)"
    using docs_insert_doc(1) [OF ok] by (metis prod.collapse)
  have d3: "docs (migrationRecordTable e) w3 = docs (migrationRecordTable e) ?w2 @ [?r]"
    using docs_insert_doc(2) [OF ok, of "migrationRecordTable e" ?r] i by simp
  have same: "docs (migrationRecordTable e) ?w2 = docs (migrationRecordTable e) w"
    by (simp add: docs_def)
  have res: "engine_run e m w = (Inl (SynorError ''Run function is null''), w3)"
    by (simp add: run i)
  show "fst (engine_run e m w) = Inl (SynorError ''Run function is null'')"
    by (simp add: res)
  have "docs (migrationRecordTable e) (snd (engine_run e m w)) =
          docs (migrationRecordTable e) w @ [?r]"
    using d3 same by (simp add: res)
  then
  show "\<exists>elapsed.
       docs (migrationRecordTable e) (snd (engine_run e m w)) =
         docs (migrationRecordTable e) w @
           [\<lparr>version = version m, mtype = mtype m, title = title m, hash = hash m,
             doc_id = None, appliedAt = date_now w, appliedBy = [],
             executionTime = elapsed, dirty = True\<rparr>]"
    by (simp add: new_record_def)
qed

theorem run_without_unit_witness:
  "run (migration None) = None \<and> db fresh_engine = None \<and>
   db opened_engine \<noteq> None \<and> Insert \<notin> rejects (world_with [] {}) \<and>
   engine_run fresh_engine (migration None) empty_world =
     (Inl (SynorError ''Run function is null''),
      empty_world\<lparr>console := [''error trying to run migration'']\<rparr>) \<and>
   fst (engine_run opened_engine (migration None) (world_with [] {})) =
     Inl (SynorError ''Run function is null'') \<and>
   (\<exists>elapsed.
      docs ''synor_migration_record''
        (snd (engine_run opened_engine (migration None) (world_with [] {}))) =
        [\<lparr>version = ''2'', mtype = ''DO'', title = ''add users'', hash = ''abc'',
          doc_id = None, appliedAt = 5000, appliedBy = [],
          executionTime = elapsed, dirty = True\<rparr>])"
proof -
  have r: "run (migration None) = None" by (simp add: migration_def)
  have a: "db fresh_engine = None" by (simp add: fresh_engine_def)
  have b: "db opened_engine \<noteq> None \<and> Insert \<notin> rejects (world_with [] {})"
    by (simp add: opened_engine_def fresh_engine_def world_with_def)
  show ?thesis
    using run_without_unit [OF r, of fresh_engine empty_world]
          run_without_unit [OF r, of opened_engine "world_with [] {}"] r a b
    by (simp add: opened_engine_def fresh_engine_def migration_def world_with_def docs_def
          empty_world_def)
qed

text \<open>
  At an opened engine and an empty record collection, a descriptor without a unit leaves a
  record behind.
\<close>

theorem run_without_unit_counterexample:
  "run (migration None) = None \<and>
   docs ''synor_migration_record'' (world_with [] {}) = [] \<and>
   engine_run opened_engine (migration None) (world_with [] {}) =
     (Inl (SynorError ''Run function is null''),
      \<lparr>collections =
         [(''synor_migration_record'',
           [\<lparr>version = ''2'', mtype = ''DO'', title = ''add users'', hash = ''abc'',
             doc_id = None, appliedAt = 5000, appliedBy = [],
             executionTime = 0, dirty = True\<rparr>])],
       rejects = {}, performance_now = 100, date_now = 5000,
       console = [''error trying to run migration'']\<rparr>)"
  by (simp add: engine_run_def try_block_def catch_block_def finally_block_def
        insert_doc_def driver_def opened_engine_def fresh_engine_def migration_def
        world_with_def docs_def new_record_def)

section \<open>The identity of the user\<close>

lemma try_block_userInfo: "try_block (e\<lparr>userInfo := g\<rparr>) m w = try_block e m w"
  by (simp add: try_block_def split: option.splits)

lemma finally_block_userInfo:
  "finally_block (e\<lparr>userInfo := g\<rparr>) m s d w = finally_block e m s d w"
  by (simp add: finally_block_def split: option.splits)

text \<open>
  C9. The engine asks only whether \<^verbatim>\<open>getUserInfo\<close> is a function and never
  calls it: \<^verbatim>\<open>run\<close> gives the same result whatever the helper is, and the record
  it writes, for a run that succeeds as for one that fails, has the empty string as
  \<^verbatim>\<open>appliedBy\<close>.
\<close>

theorem run_applied_by:
  assumes "db e = Some h" and "try_block e m w = (t, w1)" and "Insert \<notin> rejects w1"
  shows "engine_run (e\<lparr>userInfo := g\<rparr>) m w = engine_run e m w \<and>
         (\<exists>r. docs (migrationRecordTable e) (snd (engine_run e m w)) =
                 docs (migrationRecordTable e) w1 @ [r] \<and> appliedBy r = [])"
proof
  show "engine_run (e\<lparr>userInfo := g\<rparr>) m w = engine_run e m w"
    by (simp add: engine_run_def try_block_userInfo finally_block_userInfo)
next
  obtain d w2 where c: "catch_block t w1 = (d, w2)" by (metis prod.collapse)
  have w2: "rejects w2 = rejects w1" "docs (migrationRecordTable e) w2 = docs (migrationRecordTable e) w1"
    using c by (auto simp: catch_block_def docs_def split: option.splits)
  let ?r = "new_record m (date_now w2) (performance_now w2 - performance_now w) d"
  have ok: "Insert \<notin> rejects w2" using assms w2 by simp
  have f: "finally_block e m (performance_now w) d w2 =
             insert_doc (migrationRecordTable e) ?r w2"
    using assms by (simp add: finally_block_def)
  obtain w3 where i: "insert_doc (migrationRecordTable e) ?r w2 = (None, w3)"
    using docs_insert_doc(1) [OF ok] by (metis prod.collapse)
  have d3: "docs (migrationRecordTable e) w3 = docs (migrationRecordTable e) w2 @ [?r]"
    using docs_insert_doc(2) [OF ok, of "migrationRecordTable e" ?r] i by simp
  have "snd (engine_run e m w) = w3"
    using assms(2) c f i by (simp add: engine_run_def split: option.splits)
  then have "docs (migrationRecordTable e) (snd (engine_run e m w)) =
               docs (migrationRecordTable e) w1 @ [?r] \<and> appliedBy ?r = []"
    using d3 w2 by (simp add: new_record_def)
  then show "\<exists>r. docs (migrationRecordTable e) (snd (engine_run e m w)) =
                 docs (migrationRecordTable e) w1 @ [r] \<and> appliedBy r = []"
    by blast
qed

theorem run_applied_by_witness:
  "db opened_engine = Some (Db (Some ''app'')) \<and>
   try_block opened_engine (migration (Some unit_ok)) (world_with [] {}) =
     (None, (world_with [] {})\<lparr>performance_now := 105\<rparr>) \<and>
   engine_run (opened_engine\<lparr>userInfo := (\<lambda>u. ''bob'')\<rparr>) (migration (Some unit_ok)) (world_with [] {}) =
     engine_run opened_engine (migration (Some unit_ok)) (world_with [] {}) \<and>
   (\<exists>r. docs ''synor_migration_record''
          (snd (engine_run opened_engine (migration (Some unit_ok)) (world_with [] {}))) = [r] \<and>
        appliedBy r = [])"
proof -
  let ?w = "world_with [] {}"
  let ?w1 = "?w\<lparr>performance_now := 105\<rparr>"
  have a: "db opened_engine = Some (Db (Some ''app''))"
    by (simp add: opened_engine_def fresh_engine_def)
  have b: "try_block opened_engine (migration (Some unit_ok)) ?w = (None, ?w1)"
    by (simp add: try_block_def opened_engine_def fresh_engine_def migration_def unit_ok_def
          world_with_def)
  have c: "Insert \<notin> rejects ?w1" by (simp add: world_with_def)
  have d: "docs (migrationRecordTable opened_engine) ?w1 = []"
    "migrationRecordTable opened_engine = ''synor_migration_record''"
    by (simp_all add: docs_def world_with_def opened_engine_def fresh_engine_def)
  show ?thesis
    using run_applied_by [OF a b c, of "\<lambda>u. ''bob''"] a b d by simp
qed

text \<open>
  An engine built with a helper that answers \<open>''alice''\<close>, opened on an empty database,
  writes a record whose \<^verbatim>\<open>appliedBy\<close> is empty.
\<close>

theorem applied_by_counterexample:
  "MongoDbEngine sample_parse sample_uri sample_helpers = Inr fresh_engine \<and>
   engine_open fresh_engine empty_world = (Inr (), opened_engine, world_with [] {}) \<and>
   userInfo opened_engine () = ''alice'' \<and>
   map appliedBy
     (docs ''synor_migration_record''
        (snd (engine_run opened_engine (migration (Some unit_ok)) (world_with [] {})))) = ['''']"
  by (simp add: MongoDbEngine_def parseConnectionString_def falsy_string_def falsy_number_def
        sample_parse_def sample_helpers_def fresh_engine_def opened_engine_def sample_uri_def
        engine_open_def connect_def client_db_def ensureMigrationRecordTableExists_def
        createCollection_def driver_def empty_world_def world_with_def
        engine_run_def try_block_def catch_block_def finally_block_def insert_doc_def
        migration_def unit_ok_def new_record_def docs_def)

section \<open>Querying the records\<close>

lemma ids_of_Cons:
  "ids_of (d # ds) = (case doc_id d of None \<Rightarrow> ids_of ds | Some i \<Rightarrow> i # ids_of ds)"
  by (simp add: ids_of_def split: option.splits)

lemma ids_of_filter_subset: "set (ids_of (filter P ds)) \<subseteq> set (ids_of ds)"
  by (induction ds) (auto simp: ids_of_Cons split: option.splits)

lemma sorted_ids_of_filter: "sorted (ids_of ds) \<Longrightarrow> sorted (ids_of (filter P ds))"
proof (induction ds)
  case Nil
  then show ?case by simp
next
  case (Cons d ds)
  then show ?case
    using ids_of_filter_subset [of P ds]
    by (auto simp: ids_of_Cons split: option.splits)
qed

text \<open>
  C5. With the handle set and the query accepted, \<^verbatim>\<open>records\<close> returns exactly
  the documents of the record collection whose \<^verbatim>\<open>id\<close> is at least
  \<^verbatim>\<open>startid\<close>, all of them, in the order in which the collection stores them: the
  source asks for no sort. The result is ascending by id when the collection is stored so,
  and it is the empty list, not an error, when no document qualifies.
\<close>

theorem records_from:
  assumes "db e = Some h" and "Find \<notin> rejects w"
  shows "engine_records e startid w =
           Inr (filter (\<lambda>d. \<exists>i. doc_id d = Some i \<and> startid \<le> i)
                  (docs (migrationRecordTable e) w)) \<and>
         (sorted (ids_of (docs (migrationRecordTable e) w)) \<longrightarrow>
            (\<exists>rs. engine_records e startid w = Inr rs \<and> sorted (ids_of rs))) \<and>
         ((\<forall>d \<in> set (docs (migrationRecordTable e) w). \<forall>i. doc_id d = Some i \<longrightarrow> i < startid) \<longrightarrow>
            engine_records e startid w = Inr [])"
proof -
  have q: "id_gte startid = (\<lambda>d. \<exists>i. doc_id d = Some i \<and> startid \<le> i)"
    by (auto simp: id_gte_def fun_eq_iff split: option.splits)
  have r: "engine_records e startid w =
             Inr (filter (\<lambda>d. \<exists>i. doc_id d = Some i \<and> startid \<le> i)
                    (docs (migrationRecordTable e) w))"
    using assms by (simp add: engine_records_def find_docs_def q)
  have "(\<forall>d \<in> set (docs (migrationRecordTable e) w). \<forall>i. doc_id d = Some i \<longrightarrow> i < startid) \<longrightarrow>
          filter (\<lambda>d. \<exists>i. doc_id d = Some i \<and> startid \<le> i) (docs (migrationRecordTable e) w) = []"
    by (auto simp: filter_empty_conv)
  then show ?thesis
    using r sorted_ids_of_filter by auto
qed

theorem records_from_witness:
  "db opened_engine = Some (Db (Some ''app'')) \<and>
   Find \<notin> rejects (world_with [stored (Some 1) ''x'' False, stored None ''n'' False,
                                stored (Some 2) ''y'' True, stored (Some 3) ''z'' False] {}) \<and>
   engine_records opened_engine 2
     (world_with [stored (Some 1) ''x'' False, stored None ''n'' False,
                  stored (Some 2) ''y'' True, stored (Some 3) ''z'' False] {}) =
     Inr [stored (Some 2) ''y'' True, stored (Some 3) ''z'' False] \<and>
   sorted (ids_of [stored (Some 2) ''y'' True, stored (Some 3) ''z'' False]) \<and>
   engine_records opened_engine 4
     (world_with [stored (Some 1) ''x'' False, stored None ''n'' False,
                  stored (Some 2) ''y'' True, stored (Some 3) ''z'' False] {}) = Inr []"
proof -
  let ?w = "world_with [stored (Some 1) ''x'' False, stored None ''n'' False,
                        stored (Some 2) ''y'' True, stored (Some 3) ''z'' False] {}"
  have a: "db opened_engine = Some (Db (Some ''app''))"
    by (simp add: opened_engine_def fresh_engine_def)
  have b: "Find \<notin> rejects ?w" by (simp add: world_with_def)
  have d: "docs (migrationRecordTable opened_engine) ?w =
            [stored (Some 1) ''x'' False, stored None ''n'' False,
             stored (Some 2) ''y'' True, stored (Some 3) ''z'' False]"
    by (simp add: docs_def world_with_def opened_engine_def fresh_engine_def)
  have s2: "filter (\<lambda>d. \<exists>i. doc_id d = Some i \<and> 2 \<le> i)
              [stored (Some 1) ''x'' False, stored None ''n'' False,
               stored (Some 2) ''y'' True, stored (Some 3) ''z'' False] =
            [stored (Some 2) ''y'' True, stored (Some 3) ''z'' False]"
    by (simp add: stored_def)
  have s4: "filter (\<lambda>d. \<exists>i. doc_id d = Some i \<and> 4 \<le> i)
              [stored (Some 1) ''x'' False, stored None ''n'' False,
               stored (Some 2) ''y'' True, stored (Some 3) ''z'' False] = []"
    by (simp add: stored_def)
  have s: "sorted (ids_of [stored (Some 2) ''y'' True, stored (Some 3) ''z'' False])"
    by (simp add: stored_def ids_of_def)
  show ?thesis
    using records_from [OF a b, of 2] records_from [OF a b, of 4] a b s
    by (simp only: d s2 s4 simp_thms)
qed

text \<open>
  A collection that stores the record with id 2 before the record with id 1 is returned in
  that order.
\<close>

theorem records_order_counterexample:
  "engine_records opened_engine 0
     (world_with [stored (Some 2) ''x'' False, stored (Some 1) ''y'' False] {}) =
     Inr [stored (Some 2) ''x'' False, stored (Some 1) ''y'' False] \<and>
   ids_of [stored (Some 2) ''x'' False, stored (Some 1) ''y'' False] = [2, 1] \<and>
   \<not> sorted [2, 1 :: int]"
  by (simp add: engine_records_def find_docs_def docs_def id_gte_def world_with_def
        opened_engine_def fresh_engine_def stored_def ids_of_def )

section \<open>Opening and dropping\<close>

lemma created_there:
  "map_of (if map_of cs name = None then cs @ [(name, v)] else cs) name \<noteq> None"
  by (simp add: map_add_def split: option.splits)

lemma engine_open_refused_connect:
  "Connect \<in> rejects w \<Longrightarrow> engine_open e w = (Inl (MongoError Connect), e, w)"
  by (simp add: engine_open_def connect_def)

lemma engine_open_refused_create:
  "Connect \<notin> rejects w \<Longrightarrow> CreateCollection \<in> rejects w \<Longrightarrow>
     fst (engine_open e w) = Inl (MongoError CreateCollection)"
  by (simp add: engine_open_def connect_def ensureMigrationRecordTableExists_def
        createCollection_def driver_def Let_def)

lemma engine_open_accepted:
  "Connect \<notin> rejects w \<Longrightarrow> CreateCollection \<notin> rejects w \<Longrightarrow>
     engine_open e w =
       (Inr (), e\<lparr>client := Some (MongoClient (uri e)), db := Some (Db (database e))\<rparr>,
        w\<lparr>collections :=
            (if map_of (collections w) (migrationRecordTable e) = None
             then collections w @ [(migrationRecordTable e, [])] else collections w)\<rparr>)"
  by (simp add: engine_open_def connect_def client_db_def ensureMigrationRecordTableExists_def
        createCollection_def driver_def Let_def)


text \<open>
  C7. With the driver's \<^verbatim>\<open>createCollection\<close> as the spec describes it,
  \<^verbatim>\<open>open\<close> on a database that already has the record collection succeeds and
  changes nothing in the database; and after any \<^verbatim>\<open>open\<close> that succeeded, a
  second one succeeds and changes neither the database nor the handles.
\<close>

theorem open_again:
  "(Connect \<notin> rejects w \<and> CreateCollection \<notin> rejects w \<and>
    map_of (collections w) (migrationRecordTable e) \<noteq> None \<longrightarrow>
      engine_open e w =
        (Inr (), e\<lparr>client := Some (MongoClient (uri e)), db := Some (Db (database e))\<rparr>, w)) \<and>
   (engine_open e w = (Inr (), e1, w1) \<longrightarrow> engine_open e1 w1 = (Inr (), e1, w1))"
proof (intro conjI impI)
  assume "Connect \<notin> rejects w \<and> CreateCollection \<notin> rejects w \<and>
    map_of (collections w) (migrationRecordTable e) \<noteq> None"
  then show "engine_open e w =
      (Inr (), e\<lparr>client := Some (MongoClient (uri e)), db := Some (Db (database e))\<rparr>, w)"
    by (simp add: engine_open_accepted)
next
  assume a: "engine_open e w = (Inr (), e1, w1)"
  have c: "Connect \<notin> rejects w"
    using a engine_open_refused_connect [of w e] by auto
  have cc: "CreateCollection \<notin> rejects w"
    using a c engine_open_refused_create [of w e] by auto
  let ?cs = "if map_of (collections w) (migrationRecordTable e) = None
             then collections w @ [(migrationRecordTable e, [])] else collections w"
  have e1: "e1 = e\<lparr>client := Some (MongoClient (uri e)), db := Some (Db (database e))\<rparr>"
    and w1: "w1 = w\<lparr>collections := ?cs\<rparr>"
    using a unfolding engine_open_accepted [OF c cc] by simp_all
  have c1: "collections w1 = ?cs"
    by (simp add: w1)
  have t1: "migrationRecordTable e1 = migrationRecordTable e" "uri e1 = uri e"
    "database e1 = database e"
    by (simp_all add: e1)
  have there: "map_of (collections w1) (migrationRecordTable e1) \<noteq> None"
    unfolding c1 t1 by (rule created_there)
  have r1: "Connect \<notin> rejects w1" "CreateCollection \<notin> rejects w1"
    using c cc by (simp_all add: w1)
  have same: "e1\<lparr>client := Some (MongoClient (uri e1)), db := Some (Db (database e1))\<rparr> = e1"
    unfolding t1 by (simp add: e1)
  show "engine_open e1 w1 = (Inr (), e1, w1)"
    unfolding engine_open_accepted [OF r1] same using there by simp
qed


theorem open_again_witness:
  "Connect \<notin> rejects (world_with [stored None ''abc'' False] {}) \<and>
   CreateCollection \<notin> rejects (world_with [stored None ''abc'' False] {}) \<and>
   map_of (collections (world_with [stored None ''abc'' False] {}))
     (migrationRecordTable fresh_engine) \<noteq> None \<and>
   engine_open fresh_engine (world_with [stored None ''abc'' False] {}) =
     (Inr (), opened_engine, world_with [stored None ''abc'' False] {}) \<and>
   engine_open opened_engine (world_with [stored None ''abc'' False] {}) =
     (Inr (), opened_engine, world_with [stored None ''abc'' False] {})"
proof -
  let ?w = "world_with [stored None ''abc'' False] {}"
  have h: "Connect \<notin> rejects ?w \<and> CreateCollection \<notin> rejects ?w \<and>
           map_of (collections ?w) (migrationRecordTable fresh_engine) \<noteq> None"
    by (simp add: world_with_def fresh_engine_def)
  have o: "fresh_engine\<lparr>client := Some (MongoClient (uri fresh_engine)),
                        db := Some (Db (database fresh_engine))\<rparr> = opened_engine"
    by (simp add: opened_engine_def fresh_engine_def)
  have first: "engine_open fresh_engine ?w = (Inr (), opened_engine, ?w)"
    using open_again [of ?w fresh_engine opened_engine ?w] h unfolding o by blast
  have second: "engine_open opened_engine ?w = (Inr (), opened_engine, ?w)"
    using open_again [of ?w fresh_engine opened_engine ?w] first by blast
  show ?thesis
    using h first second by blast
qed

lemma drop_all_entries:
  "drop_all cs w = (if cs = [] then None else Some (MongoError DropCollection), w)"
  by (induction cs) (auto split: prod.splits)

lemma engine_drop_cases:
  "engine_drop e w =
     (if db e = None then (Inl (SynorError ''Database connection is null''), w)
      else if ListCollections \<in> rejects w then (Inl (MongoError ListCollections), w)
      else if collections w = [] then (Inr (), w)
      else (Inl (MongoError DropCollection), w))"
  by (auto simp: engine_drop_def listCollections_def drop_all_entries split: option.splits)

lemma drop_ok_collections:
  assumes "engine_drop e w = (Inr (), w')"
  shows "db e \<noteq> None" and "collections w' = []" and "w' = w"
  using assms by (auto simp: engine_drop_cases split: if_splits)

text \<open>
  C8. \<^verbatim>\<open>drop\<close> does not touch the handle. When it completes, the handle was
  set and still is, the database has no collection, and \<^verbatim>\<open>records(0)\<close> asks the
  server: the answer is the empty list, or the server's refusal, never the error of a
  null handle. That error is raised when the handle is null, and then \<^verbatim>\<open>drop\<close>
  raises it too.
\<close>

theorem records_after_drop:
  "(engine_drop e w = (Inr (), w') \<longrightarrow>
      db e \<noteq> None \<and> collections w' = [] \<and>
      engine_records e 0 w' = (if Find \<in> rejects w' then Inl (MongoError Find) else Inr [])) \<and>
   (db e = None \<longrightarrow>
      engine_drop e w = (Inl (SynorError ''Database connection is null''), w) \<and>
      engine_records e 0 w = Inl (SynorError ''Database connection is null''))"
proof (intro conjI impI)
  assume a: "engine_drop e w = (Inr (), w')"
  show "db e \<noteq> None" using drop_ok_collections(1) [OF a] .
  show "collections w' = []" using drop_ok_collections(2) [OF a] .
  show "engine_records e 0 w' = (if Find \<in> rejects w' then Inl (MongoError Find) else Inr [])"
    using drop_ok_collections(1,2) [OF a]
    by (auto simp: engine_records_def find_docs_def docs_def)
next
  assume "db e = None"
  then show "engine_drop e w = (Inl (SynorError ''Database connection is null''), w)"
    and "engine_records e 0 w = Inl (SynorError ''Database connection is null'')"
    by (simp_all add: engine_drop_def engine_records_def)
qed

lemma drop_sample:
  "engine_drop opened_engine empty_world = (Inr (), empty_world)"
  by (simp add: engine_drop_cases opened_engine_def fresh_engine_def empty_world_def)

theorem records_after_drop_witness:
  "engine_drop opened_engine empty_world = (Inr (), empty_world) \<and>
   db opened_engine \<noteq> None \<and> collections empty_world = [] \<and>
   engine_records opened_engine 0 empty_world = Inr [] \<and>
   db fresh_engine = None \<and>
   engine_drop fresh_engine empty_world =
     (Inl (SynorError ''Database connection is null''), empty_world) \<and>
   engine_records fresh_engine 0 empty_world = Inl (SynorError ''Database connection is null'')"
proof -
  have f: "db fresh_engine = None" by (simp add: fresh_engine_def)
  have r: "Find \<notin> rejects empty_world" by (simp add: empty_world_def)
  show ?thesis
    using records_after_drop [of opened_engine empty_world empty_world]
          records_after_drop [of fresh_engine empty_world empty_world]
          drop_sample f r
    by simp
qed

text \<open>
  An engine whose handle is set, on a database that has no collection: \<^verbatim>\<open>drop\<close>
  completes, and \<^verbatim>\<open>records(0)\<close> without a new \<^verbatim>\<open>open\<close> returns the
  empty list. On a database that has a collection this \<^verbatim>\<open>drop\<close> does not
  complete: the entry it passes is refused, and the collection stays.
\<close>

theorem records_after_drop_counterexample:
  "db opened_engine = Some (Db (Some ''app'')) \<and>
   engine_drop opened_engine empty_world = (Inr (), empty_world) \<and>
   engine_records opened_engine 0 empty_world = Inr [] \<and>
   engine_drop opened_engine (world_with [stored None ''abc'' False] {}) =
     (Inl (MongoError DropCollection), world_with [stored None ''abc'' False] {})"
  by (simp add: engine_drop_def listCollections_def
        opened_engine_def fresh_engine_def world_with_def empty_world_def
        engine_records_def find_docs_def docs_def)

section \<open>Repairing\<close>

subsection \<open>Entries of the database\<close>

lemma map_entry_comp:
  "AList.map_entry k g (AList.map_entry k f xs) = AList.map_entry k (\<lambda>v. g (f v)) xs"
  by (induction xs) auto

lemma map_entry_same: "(\<And>v. f v = v) \<Longrightarrow> AList.map_entry k f xs = xs"
  by (induction xs) auto

lemma docs_map_entry:
  "f [] = [] \<Longrightarrow>
     docs name (w\<lparr>collections := AList.map_entry name f (collections w)\<rparr>) = f (docs name w)"
  by (simp add: docs_def AList.map_of_map_entry split: option.splits)

subsection \<open>The updates on a list of documents\<close>

lemma id_eq_fun: "id_eq i = (\<lambda>d. doc_id d = Some i)"
  by (simp add: id_eq_def fun_eq_iff)

lemma apply_corrections_Nil [simp]: "apply_corrections [] ds = ds"
  by (simp add: apply_corrections_def)

lemma apply_corrections_Cons:
  "apply_corrections (c # cs) ds =
     apply_corrections cs (update_first (\<lambda>d. doc_id d = Some (fst c)) (\<lambda>d. d\<lparr>hash := snd c\<rparr>) ds)"
  by (simp add: apply_corrections_def)

lemma apply_corrections_empty [simp]: "apply_corrections cs [] = []"
  by (induction cs) (simp_all add: apply_corrections_Cons)

lemma update_first_keeps:
  "map doc_id (update_first q (\<lambda>d. d\<lparr>hash := h\<rparr>) ds) = map doc_id ds"
  "map dirty (update_first q (\<lambda>d. d\<lparr>hash := h\<rparr>) ds) = map dirty ds"
  by (induction ds) auto

lemma apply_corrections_keeps:
  "map doc_id (apply_corrections cs ds) = map doc_id ds"
  "map dirty (apply_corrections cs ds) = map dirty ds"
  by (induction cs arbitrary: ds) (simp_all add: apply_corrections_Cons update_first_keeps)

lemma update_first_no_match:
  "\<forall>d \<in> set ds. \<not> q d \<Longrightarrow> update_first q upd ds = ds"
  by (induction ds) auto

lemma last_hash_Nil [simp]: "last_hash [] i = None"
  by (simp add: last_hash_def)

lemma last_hash_Cons:
  "last_hash (c # cs) i =
     (case last_hash cs i of
        Some h \<Rightarrow> Some h
      | None \<Rightarrow> if fst c = i then Some (snd c) else None)"
  by (cases c) (simp add: last_hash_def map_add_def split: option.splits)

lemma last_hash_filter:
  "last_hash (filter (\<lambda>c. fst c \<noteq> k) cs) i = (if i = k then None else last_hash cs i)"
  by (induction cs) (auto simp: last_hash_Cons split: option.splits)

text \<open>
  The head of the list takes every correction for its id, and the last one stays; the
  corrections for other ids go on to the tail.
\<close>

lemma apply_corrections_head:
  "apply_corrections cs (d # ds) =
     (case doc_id d of
        None \<Rightarrow> d # apply_corrections cs ds
      | Some k \<Rightarrow>
          (case last_hash cs k of None \<Rightarrow> d | Some h \<Rightarrow> d\<lparr>hash := h\<rparr>)
            # apply_corrections (filter (\<lambda>c. fst c \<noteq> k) cs) ds)"
proof (induction cs arbitrary: d ds)
  case Nil
  then show ?case by (simp split: option.splits)
next
  case (Cons c cs)
  show ?case
  proof (cases "doc_id d = Some (fst c)")
    case True
    then show ?thesis
      by (simp add: apply_corrections_Cons Cons.IH last_hash_Cons split: option.splits)
  next
    case False
    then show ?thesis
      by (auto simp: apply_corrections_Cons Cons.IH last_hash_Cons split: option.splits)
  qed
qed

lemma apply_corrections_idem:
  "apply_corrections cs (apply_corrections cs ds) = apply_corrections cs ds"
proof (induction ds arbitrary: cs)
  case Nil
  then show ?case by simp
next
  case (Cons d ds)
  show ?case
    by (cases "doc_id d")
       (auto simp: apply_corrections_head Cons.IH split: option.splits)
qed

lemma apply_corrections_last_hash:
  "last_hash cs i = Some h \<Longrightarrow>
   List.find (\<lambda>d. doc_id d = Some i) (apply_corrections cs ds) = Some d \<Longrightarrow> hash d = h"
proof (induction ds arbitrary: cs)
  case Nil
  then show ?case by simp
next
  case (Cons x ds)
  show ?case
  proof (cases "doc_id x")
    case None
    with Cons.prems Cons.IH [of cs] show ?thesis
      by (simp add: apply_corrections_head)
  next
    case (Some k)
    show ?thesis
    proof (cases "k = i")
      case True
      with Some Cons.prems show ?thesis
        by (auto simp: apply_corrections_head split: option.splits)
    next
      case False
      then have "last_hash (filter (\<lambda>c. fst c \<noteq> k) cs) i = Some h"
        using Cons.prems(1) by (simp add: last_hash_filter)
      moreover have "List.find (\<lambda>d. doc_id d = Some i)
                       (apply_corrections (filter (\<lambda>c. fst c \<noteq> k) cs) ds) = Some d"
        using Cons.prems(2) Some False
        by (auto simp: apply_corrections_head split: option.splits)
      ultimately show ?thesis by (rule Cons.IH)
    qed
  qed
qed

lemma apply_corrections_no_match:
  "\<forall>c \<in> set cs. \<forall>d \<in> set ds. doc_id d \<noteq> Some (fst c) \<Longrightarrow> apply_corrections cs ds = ds"
  by (induction cs arbitrary: ds) (simp_all add: apply_corrections_Cons update_first_no_match)

lemma sweep_clean: "\<forall>d \<in> set (sweep ds). \<not> dirty d"
  by (simp add: sweep_def)

lemma sweep_fixed: "\<forall>d \<in> set ds. \<not> dirty d \<Longrightarrow> sweep ds = ds"
  by (simp add: sweep_def)

lemma apply_corrections_clean:
  assumes "\<forall>d \<in> set ds. \<not> dirty d"
  shows "\<forall>d \<in> set (apply_corrections cs ds). \<not> dirty d"
proof -
  have "set (map dirty (apply_corrections cs ds)) = set (map dirty ds)"
    by (simp only: apply_corrections_keeps)
  then show ?thesis using assms by (metis (no_types, lifting) image_iff list.set_map)
qed

lemma repair_list_idem:
  "apply_corrections cs (sweep (apply_corrections cs (sweep ds))) = apply_corrections cs (sweep ds)"
proof -
  have "\<forall>d \<in> set (apply_corrections cs (sweep ds)). \<not> dirty d"
    using sweep_clean by (rule apply_corrections_clean)
  then have "sweep (apply_corrections cs (sweep ds)) = apply_corrections cs (sweep ds)"
    by (rule sweep_fixed)
  then show ?thesis
    by (simp only: apply_corrections_idem)
qed

lemma sweep_idem: "sweep (sweep ds) = sweep ds"
  by (simp add: sweep_def)

subsection \<open>The method on the world\<close>

lemma map_entry_ident: "AList.map_entry k (\<lambda>v. v) xs = xs"
  by (rule map_entry_same) simp

lemma apply_corrections_Nil_fun: "apply_corrections [] = (\<lambda>ds. ds)"
  by (simp add: fun_eq_iff)

lemma update_all_accepted:
  "UpdateOne \<notin> rejects w \<Longrightarrow>
     update_all name cs w =
       (None, w\<lparr>collections := AList.map_entry name (apply_corrections cs) (collections w)\<rparr>)"
proof (induction cs arbitrary: w)
  case Nil
  then show ?case by (simp add: map_entry_ident apply_corrections_Nil_fun)
next
  case (Cons c cs)
  let ?w' = "w\<lparr>collections :=
                AList.map_entry name
                  (update_first (\<lambda>d. doc_id d = Some (fst c)) (\<lambda>d. d\<lparr>hash := snd c\<rparr>))
                  (collections w)\<rparr>"
  have step: "updateRecord name c w = (None, ?w')"
    using Cons.prems by (simp add: updateRecord_def updateOne_def driver_def id_eq_fun)
  have "UpdateOne \<notin> rejects ?w'" using Cons.prems by simp
  then have "update_all name cs ?w' =
      (None, ?w'\<lparr>collections := AList.map_entry name (apply_corrections cs) (collections ?w')\<rparr>)"
    by (rule Cons.IH)
  then show ?case
    by (simp add: step map_entry_comp apply_corrections_Cons)
qed

lemma update_all_refused:
  "UpdateOne \<in> rejects w \<Longrightarrow>
     update_all name cs w = (if cs = [] then None else Some (MongoError UpdateOne), w)"
  by (cases cs) (simp_all add: updateRecord_def updateOne_def driver_def)

lemma deleteDirtyRecords_accepted:
  "DeleteMany \<notin> rejects w \<Longrightarrow>
     deleteDirtyRecords name w =
       (None, w\<lparr>collections := AList.map_entry name sweep (collections w)\<rparr>)"
proof -
  have "(\<lambda>ds. filter (\<lambda>d. \<not> dirty_true d) ds) = sweep"
    by (simp add: dirty_true_def sweep_def fun_eq_iff)
  then have "filter (\<lambda>d. \<not> dirty_true d) = sweep" by simp
  then show "DeleteMany \<notin> rejects w \<Longrightarrow> ?thesis"
    by (simp add: deleteDirtyRecords_def deleteMany_def driver_def)
qed

lemma deleteDirtyRecords_refused:
  "DeleteMany \<in> rejects w \<Longrightarrow>
     deleteDirtyRecords name w = (Some (MongoError DeleteMany), w)"
  by (simp add: deleteDirtyRecords_def deleteMany_def driver_def)

lemma engine_repair_null:
  "db e = None \<Longrightarrow>
     engine_repair e cs w = (Inl (SynorError ''Database connection is null''), w)"
  by (simp add: engine_repair_def)

lemma engine_repair_no_sweep:
  "db e = Some h \<Longrightarrow> DeleteMany \<in> rejects w \<Longrightarrow>
     engine_repair e cs w = (Inl (MongoError DeleteMany), w)"
  by (simp add: engine_repair_def deleteDirtyRecords_refused)

lemma engine_repair_no_update:
  assumes "db e = Some h" and "DeleteMany \<notin> rejects w" and "UpdateOne \<in> rejects w"
    and "cs \<noteq> []"
  shows "engine_repair e cs w =
     (Inl (MongoError UpdateOne),
      w\<lparr>collections := AList.map_entry (migrationRecordTable e) sweep (collections w)\<rparr>)"
proof -
  let ?w' = "w\<lparr>collections := AList.map_entry (migrationRecordTable e) sweep (collections w)\<rparr>"
  have "UpdateOne \<in> rejects ?w'" using assms by simp
  then have "update_all (migrationRecordTable e) cs ?w' = (Some (MongoError UpdateOne), ?w')"
    using assms(4) by (simp add: update_all_refused)
  then show ?thesis
    using assms by (simp add: engine_repair_def deleteDirtyRecords_accepted)
qed

lemma engine_repair_accepted:
  assumes "db e = Some h" and "DeleteMany \<notin> rejects w" and "UpdateOne \<notin> rejects w \<or> cs = []"
  shows "engine_repair e cs w =
     (Inr (),
      w\<lparr>collections :=
          AList.map_entry (migrationRecordTable e)
            (\<lambda>ds. apply_corrections cs (sweep ds)) (collections w)\<rparr>)"
proof -
  let ?w' = "w\<lparr>collections := AList.map_entry (migrationRecordTable e) sweep (collections w)\<rparr>"
  have "update_all (migrationRecordTable e) cs ?w' =
      (None, ?w'\<lparr>collections :=
          AList.map_entry (migrationRecordTable e) (apply_corrections cs) (collections ?w')\<rparr>)"
  proof (cases "UpdateOne \<in> rejects w")
    case True
    then have "cs = []" using assms by simp
    then show ?thesis by (simp add: map_entry_ident apply_corrections_Nil_fun)
  next
    case False
    then have "UpdateOne \<notin> rejects ?w'" by simp
    then show ?thesis by (rule update_all_accepted)
  qed
  then show ?thesis
    using assms(1,2) by (simp add: engine_repair_def deleteDirtyRecords_accepted map_entry_comp)
qed

text \<open>
  C6. \<^verbatim>\<open>repair\<close> run again on the world that \<^verbatim>\<open>repair\<close> left, with the same
  corrections, gives the same result and the same world: the second sweep finds nothing
  dirty, and the second round of updates writes the hashes that are already there. This
  holds for every engine, list of corrections and world, also where a call is refused.
\<close>

theorem repair_twice:
  "engine_repair e cs (snd (engine_repair e cs w)) = engine_repair e cs w"
proof (cases "db e")
  case None
  then show ?thesis by (simp add: engine_repair_null)
next
  case (Some h)
  show ?thesis
  proof (cases "DeleteMany \<in> rejects w")
    case True
    then show ?thesis using Some by (simp add: engine_repair_no_sweep)
  next
    case False
    show ?thesis
    proof (cases "UpdateOne \<in> rejects w \<and> cs \<noteq> []")
      case True
      let ?w' = "w\<lparr>collections := AList.map_entry (migrationRecordTable e) sweep (collections w)\<rparr>"
      have first: "engine_repair e cs w = (Inl (MongoError UpdateOne), ?w')"
        using Some False True by (simp add: engine_repair_no_update)
      have "DeleteMany \<notin> rejects ?w'" "UpdateOne \<in> rejects ?w'"
        using False True by simp_all
      then have "engine_repair e cs ?w' =
          (Inl (MongoError UpdateOne),
           ?w'\<lparr>collections := AList.map_entry (migrationRecordTable e) sweep (collections ?w')\<rparr>)"
        using Some True by (simp add: engine_repair_no_update)
      then have "engine_repair e cs ?w' = (Inl (MongoError UpdateOne), ?w')"
        by (simp add: map_entry_comp sweep_idem)
      then show ?thesis by (simp add: first)
    next
      case ok: False
      let ?f = "\<lambda>ds. apply_corrections cs (sweep ds)"
      let ?w' = "w\<lparr>collections := AList.map_entry (migrationRecordTable e) ?f (collections w)\<rparr>"
      have first: "engine_repair e cs w = (Inr (), ?w')"
        using Some False ok by (simp add: engine_repair_accepted)
      have "DeleteMany \<notin> rejects ?w'" "UpdateOne \<notin> rejects ?w' \<or> cs = []"
        using False ok by auto
      then have "engine_repair e cs ?w' =
          (Inr (), ?w'\<lparr>collections := AList.map_entry (migrationRecordTable e) ?f (collections ?w')\<rparr>)"
        using Some by (rule engine_repair_accepted [rotated])
      then have "engine_repair e cs ?w' = (Inr (), ?w')"
        by (simp add: map_entry_comp repair_list_idem)
      then show ?thesis by (simp add: first)
    qed
  qed
qed

theorem repair_twice_witness:
  "engine_repair opened_engine [(1, ''a''), (3, ''c''), (1, ''b'')]
     (world_with [stored (Some 1) ''x'' False, stored (Some 2) ''y'' True,
                  stored (Some 3) ''z'' False] {}) =
     (Inr (), world_with [stored (Some 1) ''b'' False, stored (Some 3) ''c'' False] {}) \<and>
   engine_repair opened_engine [(1, ''a''), (3, ''c''), (1, ''b'')]
     (world_with [stored (Some 1) ''b'' False, stored (Some 3) ''c'' False] {}) =
     (Inr (), world_with [stored (Some 1) ''b'' False, stored (Some 3) ''c'' False] {})"
proof -
  let ?cs = "[(1, ''a''), (3, ''c''), (1, ''b'')]"
  let ?w = "world_with [stored (Some 1) ''x'' False, stored (Some 2) ''y'' True,
                        stored (Some 3) ''z'' False] {}"
  let ?w1 = "world_with [stored (Some 1) ''b'' False, stored (Some 3) ''c'' False] {}"
  have first: "engine_repair opened_engine ?cs ?w = (Inr (), ?w1)"
    by (simp add: engine_repair_def deleteDirtyRecords_def deleteMany_def updateRecord_def
          updateOne_def driver_def dirty_true_def id_eq_def opened_engine_def fresh_engine_def
          world_with_def stored_def)
  show ?thesis
    using repair_twice [of opened_engine ?cs ?w] first by simp
qed

text \<open>
  C4. With the handle set and the two calls accepted, \<^verbatim>\<open>repair\<close> succeeds and
  changes the record collection only, to the corrections applied in their order to the swept
  list. Afterwards no document is dirty; for every id with a correction, the first document
  with that id, when there is one, carries the hash of the last correction for that id; when
  no swept document has an id of the corrections, the result is the swept list; and with no
  corrections the result is the swept list.
\<close>

theorem repair_result:
  assumes "db e = Some handle" and "DeleteMany \<notin> rejects w" and "UpdateOne \<notin> rejects w"
  shows "engine_repair e cs w =
           (Inr (),
            w\<lparr>collections :=
                AList.map_entry (migrationRecordTable e)
                  (\<lambda>ds. apply_corrections cs (sweep ds)) (collections w)\<rparr>) \<and>
         docs (migrationRecordTable e) (snd (engine_repair e cs w)) =
           apply_corrections cs (sweep (docs (migrationRecordTable e) w)) \<and>
         (\<forall>d \<in> set (docs (migrationRecordTable e) (snd (engine_repair e cs w))). \<not> dirty d) \<and>
         (\<forall>i h d. last_hash cs i = Some h \<and>
                  List.find (\<lambda>d. doc_id d = Some i)
                    (docs (migrationRecordTable e) (snd (engine_repair e cs w))) = Some d
                  \<longrightarrow> hash d = h) \<and>
         ((\<forall>c \<in> set cs. \<forall>d \<in> set (sweep (docs (migrationRecordTable e) w)).
              doc_id d \<noteq> Some (fst c)) \<longrightarrow>
            docs (migrationRecordTable e) (snd (engine_repair e cs w)) =
              sweep (docs (migrationRecordTable e) w)) \<and>
         docs (migrationRecordTable e) (snd (engine_repair e [] w)) =
           sweep (docs (migrationRecordTable e) w)"
proof -
  let ?T = "migrationRecordTable e"
  have r: "\<And>cs. engine_repair e cs w =
      (Inr (), w\<lparr>collections :=
          AList.map_entry ?T (\<lambda>ds. apply_corrections cs (sweep ds)) (collections w)\<rparr>)"
    using assms by (simp add: engine_repair_accepted)
  have d: "\<And>cs. docs ?T (snd (engine_repair e cs w)) = apply_corrections cs (sweep (docs ?T w))"
  proof -
    fix cs
    have "apply_corrections cs (sweep []) = []" by (simp add: sweep_def)
    then have "docs ?T (w\<lparr>collections :=
          AList.map_entry ?T (\<lambda>ds. apply_corrections cs (sweep ds)) (collections w)\<rparr>) =
        apply_corrections cs (sweep (docs ?T w))"
      by (rule docs_map_entry)
    then show "docs ?T (snd (engine_repair e cs w)) = apply_corrections cs (sweep (docs ?T w))"
      by (simp add: r)
  qed
  have clean: "\<forall>x \<in> set (docs ?T (snd (engine_repair e cs w))). \<not> dirty x"
    unfolding d using sweep_clean by (rule apply_corrections_clean)
  have last: "\<forall>i h x. last_hash cs i = Some h \<and>
                  List.find (\<lambda>d. doc_id d = Some i) (docs ?T (snd (engine_repair e cs w))) = Some x
                  \<longrightarrow> hash x = h"
    unfolding d using apply_corrections_last_hash by blast
  have noop: "(\<forall>c \<in> set cs. \<forall>x \<in> set (sweep (docs ?T w)). doc_id x \<noteq> Some (fst c)) \<longrightarrow>
            docs ?T (snd (engine_repair e cs w)) = sweep (docs ?T w)"
    unfolding d using apply_corrections_no_match by blast
  have none: "docs ?T (snd (engine_repair e [] w)) = sweep (docs ?T w)"
    unfolding d by simp
  show ?thesis
    using r [of cs] d [of cs] clean last noop none by blast
qed

theorem repair_result_witness:
  "db opened_engine = Some (Db (Some ''app'')) \<and>
   DeleteMany \<notin> rejects (world_with [stored (Some 1) ''x'' False, stored (Some 2) ''y'' True,
                                      stored (Some 3) ''z'' False] {}) \<and>
   UpdateOne \<notin> rejects (world_with [stored (Some 1) ''x'' False, stored (Some 2) ''y'' True,
                                     stored (Some 3) ''z'' False] {}) \<and>
   docs ''synor_migration_record''
     (snd (engine_repair opened_engine [(1, ''a''), (3, ''c''), (1, ''b''), (2, ''d''), (9, ''e'')]
        (world_with [stored (Some 1) ''x'' False, stored (Some 2) ''y'' True,
                     stored (Some 3) ''z'' False] {}))) =
     [stored (Some 1) ''b'' False, stored (Some 3) ''c'' False] \<and>
   docs ''synor_migration_record''
     (snd (engine_repair opened_engine [(2, ''d''), (9, ''e'')]
        (world_with [stored (Some 1) ''x'' False, stored (Some 2) ''y'' True,
                     stored (Some 3) ''z'' False] {}))) =
     [stored (Some 1) ''x'' False, stored (Some 3) ''z'' False]"
proof -
  let ?w = "world_with [stored (Some 1) ''x'' False, stored (Some 2) ''y'' True,
                        stored (Some 3) ''z'' False] {}"
  have a: "db opened_engine = Some (Db (Some ''app''))"
    by (simp add: opened_engine_def fresh_engine_def)
  have b: "DeleteMany \<notin> rejects ?w" and c: "UpdateOne \<notin> rejects ?w"
    by (simp_all add: world_with_def)
  have t: "migrationRecordTable opened_engine = ''synor_migration_record''"
    by (simp add: opened_engine_def fresh_engine_def)
  have d: "docs ''synor_migration_record'' ?w =
             [stored (Some 1) ''x'' False, stored (Some 2) ''y'' True, stored (Some 3) ''z'' False]"
    by (simp add: docs_def world_with_def)
  have s: "sweep [stored (Some 1) ''x'' False, stored (Some 2) ''y'' True,
                  stored (Some 3) ''z'' False] =
             [stored (Some 1) ''x'' False, stored (Some 3) ''z'' False]"
    by (simp add: sweep_def stored_def)
  have u1: "apply_corrections [(1, ''a''), (3, ''c''), (1, ''b''), (2, ''d''), (9, ''e'')]
              [stored (Some 1) ''x'' False, stored (Some 3) ''z'' False] =
            [stored (Some 1) ''b'' False, stored (Some 3) ''c'' False]"
    by (simp add: apply_corrections_def stored_def)
  have u2: "apply_corrections [(2, ''d''), (9, ''e'')]
              [stored (Some 1) ''x'' False, stored (Some 3) ''z'' False] =
            [stored (Some 1) ''x'' False, stored (Some 3) ''z'' False]"
    by (simp add: apply_corrections_def stored_def)
  have one: "docs ''synor_migration_record''
       (snd (engine_repair opened_engine [(1, ''a''), (3, ''c''), (1, ''b''), (2, ''d''), (9, ''e'')] ?w)) =
       [stored (Some 1) ''b'' False, stored (Some 3) ''c'' False]"
    using repair_result [OF a b c, of "[(1, ''a''), (3, ''c''), (1, ''b''), (2, ''d''), (9, ''e'')]"]
    unfolding t d s u1 by blast
  have two: "docs ''synor_migration_record''
       (snd (engine_repair opened_engine [(2, ''d''), (9, ''e'')] ?w)) =
       [stored (Some 1) ''x'' False, stored (Some 3) ''z'' False]"
    using repair_result [OF a b c, of "[(2, ''d''), (9, ''e'')]"]
    unfolding t d s u2 by blast
  show ?thesis
    using a b c one two by blast
qed

text \<open>
  Two corrections for one id: the record carries the hash of the second, not of the first.
  Two records with one id: only the first of them takes the hash.
\<close>

theorem repair_hash_counterexample:
  "engine_repair opened_engine [(1, ''a''), (1, ''b'')]
     (world_with [stored (Some 1) ''old'' False] {}) =
     (Inr (), world_with [stored (Some 1) ''b'' False] {}) \<and>
   hash (stored (Some 1) ''b'' False) \<noteq> ''a'' \<and>
   engine_repair opened_engine [(1, ''a'')]
     (world_with [stored (Some 1) ''x'' False, stored (Some 1) ''y'' False] {}) =
     (Inr (), world_with [stored (Some 1) ''a'' False, stored (Some 1) ''y'' False] {}) \<and>
   hash (stored (Some 1) ''y'' False) \<noteq> ''a''"
  by (simp add: engine_repair_def deleteDirtyRecords_def deleteMany_def updateRecord_def
        updateOne_def driver_def dirty_true_def id_eq_def opened_engine_def fresh_engine_def
        world_with_def stored_def)

end
